theory Spec2Isabelle
  imports Complex_Main "HOL-Library.AList"
begin

section \<open>JavaScript primitives used by the controllers\<close>

text \<open>
  The controllers read four query parameters (\<open>limit\<close>, \<open>page\<close>, \<open>sortby\<close>,
  \<open>populate\<close>) with \<^verbatim>\<open>parseInt\<close>, \<^verbatim>\<open>||\<close>, \<^verbatim>\<open>startsWith\<close>, \<^verbatim>\<open>substring\<close>,
  \<^verbatim>\<open>toLowerCase\<close>, \<^verbatim>\<open>split\<close>, \<^verbatim>\<open>trim\<close> and \<^verbatim>\<open>includes\<close>. A JavaScript
  string is modelled as a \<open>string\<close> whose characters are the code units \<open>0..255\<close>
  (ASCII and the Latin-1 supplement); code units above 255 are outside the model.
  The Numbers of the controllers are the integers that a double holds, the two
  infinities and \<^verbatim>\<open>NaN\<close>: the type \<open>number\<close> below, with the rounding of IEEE 754
  written out. The sign of a zero is not modelled (\<^verbatim>\<open>-0\<close> is falsy and is written
  \<^verbatim>\<open>0\<close> in JSON, like \<^verbatim>\<open>0\<close>).
  A query parameter is a string or absent (\<open>None\<close>, the value \<^verbatim>\<open>undefined\<close>); a
  parameter given several times, which the router parses to an array, is outside the
  model.
\<close>

datatype number = Num int | PosInfinity | NegInfinity | NaN

text \<open>The number of binary digits of a positive integer.\<close>

fun bit_length :: "int \<Rightarrow> nat" where
  "bit_length n = (if n \<le> 0 then 0 else Suc (bit_length (n div 2)))"

text \<open>
  The nearest double to an integer \<open>m\<close> of \<open>2^53\<close> or more, a tie going to the even
  significand: \<open>m\<close> keeps its 53 leading binary digits \<open>q\<close>; the \<open>e\<close> digits \<open>r\<close> cut
  off round \<open>q\<close> up when they are more than half of \<open>2^e\<close>, or exactly half with \<open>q\<close>
  odd.
\<close>

definition round_magnitude :: "int \<Rightarrow> int" where
  "round_magnitude m =
     (let e = bit_length m - 53;
          q = m div 2 ^ e;
          r = m mod 2 ^ e
      in (if 2 * r > 2 ^ e \<or> (2 * r = 2 ^ e \<and> odd q) then q + 1 else q) * 2 ^ e)"

text \<open>The least magnitude that is no finite double: \<open>2^1024\<close>.\<close>

definition double_overflow :: int where
  "double_overflow = 2 ^ 1024"

text \<open>
  The Number for a mathematical integer \<open>x\<close>. Below \<open>2^53 = 9007199254740992\<close> every
  integer is a double. From there on the magnitude is rounded to the nearest double, and
  a rounded magnitude of \<open>2^1024\<close> or more is an infinity.
\<close>

definition round_to_double :: "int \<Rightarrow> number" where
  "round_to_double x =
     (let m = \<bar>x\<bar> in
      if m < 9007199254740992 then Num x
      else if double_overflow \<le> round_magnitude m
      then (if x < 0 then NegInfinity else PosInfinity)
      else Num (if x < 0 then - round_magnitude m else round_magnitude m))"

text \<open>\<^verbatim>\<open>x - 1\<close> on Numbers.\<close>

definition num_minus_one :: "number \<Rightarrow> number" where
  "num_minus_one x = (case x of Num a \<Rightarrow> round_to_double (a - 1) | _ \<Rightarrow> x)"

text \<open>\<^verbatim>\<open>x < 0\<close> on Numbers.\<close>

definition num_negative :: "number \<Rightarrow> bool" where
  "num_negative x = (case x of Num a \<Rightarrow> a < 0 | NegInfinity \<Rightarrow> True | _ \<Rightarrow> False)"

text \<open>\<^verbatim>\<open>x * y\<close> on Numbers: the rounded product of two finite values; \<^verbatim>\<open>NaN\<close> when a
  factor is \<^verbatim>\<open>NaN\<close> or the factors are a zero and an infinity; otherwise the infinity
  with the sign of the product.\<close>

definition num_times :: "number \<Rightarrow> number \<Rightarrow> number" where
  "num_times x y =
     (case (x, y) of
        (Num a, Num b) \<Rightarrow> round_to_double (a * b)
      | _ \<Rightarrow>
          if x = NaN \<or> y = NaN \<or> x = Num 0 \<or> y = Num 0 then NaN
          else if num_negative x = num_negative y then PosInfinity else NegInfinity)"

definition code_unit :: "char \<Rightarrow> nat" where
  "code_unit c = of_char c"

text \<open>White space and line terminators among the code units \<open>0..255\<close>: TAB, LF, VT, FF,
  CR, SP and NBSP. \<^verbatim>\<open>parseInt\<close> and \<^verbatim>\<open>trim\<close> strip the same set.\<close>

definition is_white_space :: "char \<Rightarrow> bool" where
  "is_white_space c = (code_unit c \<in> {9, 10, 11, 12, 13, 32, 160})"

text \<open>The value of a digit in \<^verbatim>\<open>parseInt\<close>: \<open>0-9\<close>, then \<open>a-z\<close> and \<open>A-Z\<close> from 10.\<close>

definition digit_value :: "char \<Rightarrow> nat option" where
  "digit_value c =
     (let n = code_unit c in
      if 48 \<le> n \<and> n \<le> 57 then Some (n - 48)
      else if 97 \<le> n \<and> n \<le> 122 then Some (n - 87)
      else if 65 \<le> n \<and> n \<le> 90 then Some (n - 55)
      else None)"

definition is_radix_digit :: "nat \<Rightarrow> char \<Rightarrow> bool" where
  "is_radix_digit R c = (case digit_value c of None \<Rightarrow> False | Some d \<Rightarrow> d < R)"

fun radix_value :: "nat \<Rightarrow> int \<Rightarrow> string \<Rightarrow> int" where
  "radix_value R acc [] = acc"
| "radix_value R acc (c # cs) =
     radix_value R (acc * int R + (case digit_value c of None \<Rightarrow> 0 | Some d \<Rightarrow> int d)) cs"

text \<open>
  \<^verbatim>\<open>parseInt(string)\<close> with no radix argument, step by step as ECMAScript gives it:
  strip leading white space; read and remove a sign; the radix is 10, or 16 after a
  prefix \<^verbatim>\<open>0x\<close> or \<^verbatim>\<open>0X\<close>, which is removed; \<open>Z\<close> is the longest prefix of digits of
  that radix; the result is \<^verbatim>\<open>NaN\<close> when \<open>Z\<close> is empty and the Number for the signed
  value of \<open>Z\<close> otherwise. (For more than 20 decimal digits ECMAScript lets an engine
  read the digits after the 20th as zeros before it rounds; the model rounds the
  value of all the digits.)
\<close>

definition js_parseInt :: "string \<Rightarrow> number" where
  "js_parseInt inputString =
     (let S = dropWhile is_white_space inputString;
          sign = (if S \<noteq> [] \<and> hd S = CHR ''-'' then - 1 else 1 :: int);
          S1 = (if S \<noteq> [] \<and> (hd S = CHR ''+'' \<or> hd S = CHR ''-'') then tl S else S);
          hex = (take 2 S1 = ''0x'' \<or> take 2 S1 = ''0X'');
          R = (if hex then 16 else 10 :: nat);
          S2 = (if hex then drop 2 S1 else S1);
          Z = takeWhile (is_radix_digit R) S2
      in if Z = [] then NaN else round_to_double (sign * radix_value R 0 Z))"

text \<open>\<^verbatim>\<open>parseInt(req.query.x)\<close>: an absent parameter is \<^verbatim>\<open>undefined\<close>, which
  \<^verbatim>\<open>parseInt\<close> first converts to the string \<^verbatim>\<open>"undefined"\<close>.\<close>

definition parseInt_param :: "string option \<Rightarrow> number" where
  "parseInt_param x = js_parseInt (case x of None \<Rightarrow> ''undefined'' | Some s \<Rightarrow> s)"

text \<open>\<^verbatim>\<open>n || d\<close> on a Number: \<^verbatim>\<open>NaN\<close> and \<open>0\<close> are falsy and give \<open>d\<close>; every other
  Number, the infinities too, is kept.\<close>

definition num_or :: "number \<Rightarrow> number \<Rightarrow> number" where
  "num_or n d = (if n = NaN \<or> n = Num 0 then d else n)"

text \<open>\<^verbatim>\<open>s || d\<close> on a string or \<^verbatim>\<open>undefined\<close>: both \<^verbatim>\<open>undefined\<close> and the empty
  string are falsy.\<close>

definition str_or :: "string option \<Rightarrow> string \<Rightarrow> string" where
  "str_or s d = (case s of None \<Rightarrow> d | Some v \<Rightarrow> if v = [] then d else v)"

definition startsWith :: "string \<Rightarrow> string \<Rightarrow> bool" where
  "startsWith s p = (take (length p) s = p)"

definition substring :: "string \<Rightarrow> nat \<Rightarrow> string" where
  "substring s n = drop n s"

text \<open>\<^verbatim>\<open>toLowerCase\<close> on the code units \<open>0..255\<close>: \<open>A-Z\<close> and the capital letters
  \<open>0xC0..0xDE\<close> (all but the multiplication sign \<open>0xD7\<close>) move up by 32.\<close>

definition lower_unit :: "char \<Rightarrow> char" where
  "lower_unit c =
     (let n = code_unit c in
      if (65 \<le> n \<and> n \<le> 90) \<or> (192 \<le> n \<and> n \<le> 222 \<and> n \<noteq> 215)
      then char_of (n + 32) else c)"

definition toLowerCase :: "string \<Rightarrow> string" where
  "toLowerCase s = map lower_unit s"

text \<open>\<^verbatim>\<open>s.split(',')\<close>: the pieces between the separators, empty pieces kept; the
  empty string gives one empty piece.\<close>

fun split :: "char \<Rightarrow> string \<Rightarrow> string list" where
  "split sep [] = [[]]"
| "split sep (c # cs) =
     (if c = sep then [] # split sep cs
      else (case split sep cs of [] \<Rightarrow> [[c]] | t # ts \<Rightarrow> (c # t) # ts))"

definition trim :: "string \<Rightarrow> string" where
  "trim s = rev (dropWhile is_white_space (rev (dropWhile is_white_space s)))"

text \<open>\<^verbatim>\<open>xs.includes(x)\<close> on an array of strings.\<close>

definition array_includes :: "string list \<Rightarrow> string \<Rightarrow> bool" where
  "array_includes xs x = (x \<in> set xs)"

section \<open>Requests, replies and the options handed to the data layer\<close>

text \<open>The query string of a request, \<^verbatim>\<open>req.query\<close>: each parameter is a string or absent.\<close>

record query =
  q_limit :: "string option"
  q_page :: "string option"
  q_sortby :: "string option"
  q_populate :: "string option"

text \<open>JSON values: request bodies, stored records and response bodies. An object keeps
  its keys in insertion order, as a JavaScript object literal does.\<close>

datatype json =
  JNull
| JNum int
| JStr string
| JArr "json list"
| JObj "(string \<times> json) list"

text \<open>A request: \<^verbatim>\<open>req.query\<close>, \<^verbatim>\<open>req.params.id\<close> (the primary key it denotes, of a
  type \<open>'k\<close> left open) and \<^verbatim>\<open>req.body\<close>.\<close>

record 'k request =
  query :: query
  params_id :: 'k
  body :: json

text \<open>What a handler does with \<^verbatim>\<open>res\<close>: it sends a status and a JSON body
  (\<^verbatim>\<open>res.json\<close> alone sends status 200), or the \<^verbatim>\<open>async\<close> function throws outside its
  \<^verbatim>\<open>try\<close> block and sends nothing.\<close>

datatype reply =
  Reply (status: nat) (json_body: json)
| Rejected string

text \<open>The models \<^verbatim>\<open>db.Student\<close>, \<^verbatim>\<open>db.Teacher\<close> and \<^verbatim>\<open>db.Course\<close> as they are named
  in an include.\<close>

datatype model_ref = Student | Teacher | Course

text \<open>One element of an \<^verbatim>\<open>include\<close> array: \<^verbatim>\<open>{ model, through: { attributes }, include }\<close>.
  \<open>through_attributes\<close> is \<open>None\<close> where the object has no \<^verbatim>\<open>through\<close> key and
  \<open>nested_include\<close> is \<open>None\<close> where it has no \<^verbatim>\<open>include\<close> key.\<close>

datatype include_item =
  Include (model: model_ref)
          (through_attributes: "string list option")
          (nested_include: "include_item list option")

datatype sort_order = ASC | DESC

text \<open>The local variables of a list handler once the query string is read.\<close>

record list_locals =
  limit :: number
  page :: number
  sortField :: string
  sortOrder :: sort_order
  include_opt :: "include_item list"

text \<open>The object handed to \<^verbatim>\<open>findAll\<close>: \<^verbatim>\<open>{ limit, offset, order, include }\<close>.\<close>

record find_options =
  fo_limit :: number
  fo_offset :: number
  fo_order :: "(string \<times> sort_order) list"
  fo_include :: "include_item list"

text \<open>
  The data layer \<^verbatim>\<open>db.Student\<close> / \<^verbatim>\<open>db.Teacher\<close> (\<^verbatim>\<open>models/index.js\<close> and the ORM
  behind it) is a parameter of every handler: a state \<open>'s\<close> of the store and the five
  calls the handlers make. Each call returns \<open>Inr\<close> its result or \<open>Inl\<close> the message of
  the error it throws. \<open>db_findByPk\<close> returns \<open>None\<close> for \<^verbatim>\<open>null\<close>. \<open>db_update\<close> and
  \<open>db_destroy\<close> are the methods \<^verbatim>\<open>update\<close> and \<^verbatim>\<open>destroy\<close> of the instance that
  \<open>db_findByPk\<close> returned for the key.
\<close>

record ('s, 'k) model_api =
  db_count :: "'s \<Rightarrow> string + nat"
  db_findAll :: "'s \<Rightarrow> find_options \<Rightarrow> string + json list"
  db_findByPk :: "'s \<Rightarrow> 'k \<Rightarrow> include_item list \<Rightarrow> string + json option"
  db_update :: "'s \<Rightarrow> 'k \<Rightarrow> json \<Rightarrow> string + json \<times> 's"
  db_destroy :: "'s \<Rightarrow> 'k \<Rightarrow> string + 's"

text \<open>A Number in a JSON body: \<^verbatim>\<open>NaN\<close> and the infinities are written \<^verbatim>\<open>null\<close>.\<close>

definition number_json :: "number \<Rightarrow> json" where
  "number_json x = (case x of Num a \<Rightarrow> JNum a | _ \<Rightarrow> JNull)"

text \<open>\<^verbatim>\<open>Math.ceil(total / limit)\<close> as it is serialised, for a count \<open>tot\<close> below \<open>2^53\<close>,
  where the ceiling of the rounded quotient is the ceiling of the quotient: a zero or
  \<^verbatim>\<open>NaN\<close> \<open>limit\<close> gives \<^verbatim>\<open>NaN\<close> or \<^verbatim>\<open>Infinity\<close>, which JSON writes as \<^verbatim>\<open>null\<close>, and an
  infinite \<open>limit\<close> gives a zero.\<close>

definition totalPages_json :: "int \<Rightarrow> number \<Rightarrow> json" where
  "totalPages_json tot lmt =
     (case lmt of
        Num l \<Rightarrow> if l = 0 then JNull else JNum \<lceil>real_of_int tot / real_of_int l\<rceil>
      | NaN \<Rightarrow> JNull
      | _ \<Rightarrow> JNum 0)"

definition error_body :: "string \<Rightarrow> json" where
  "error_body msg = JObj [(''error'', JStr msg)]"

definition message_body :: "string \<Rightarrow> json" where
  "message_body msg = JObj [(''message'', JStr msg)]"

section \<open>The student controller\<close>

text \<open>\<^verbatim>\<open>getAllStudents\<close>, up to the call of \<^verbatim>\<open>findAll\<close>: the locals read from the query.\<close>

definition getAllStudents_locals :: "query \<Rightarrow> list_locals" where
  "getAllStudents_locals q =
     (let lmt = num_or (parseInt_param (q_limit q)) (Num 10);
          pg = num_or (parseInt_param (q_page q)) (Num 1);
          sortby = str_or (q_sortby q) ''name'';
          desc = startsWith sortby ''Desc'';
          populate = (case q_populate q of None \<Rightarrow> []
                      | Some p \<Rightarrow> map trim (split CHR '','' (toLowerCase p)));
          inc = (if array_includes populate ''courses'' \<or> array_includes populate ''course''
                 then [Include Course (Some [])
                         (if array_includes populate ''teacher''
                          then Some [Include Teacher None None] else None)]
                 else [])
      in \<lparr>limit = lmt, page = pg,
          sortField = (if desc then substring sortby 4 else sortby),
          sortOrder = (if desc then DESC else ASC),
          include_opt = inc\<rparr>)"

definition getAllStudents_findAll :: "query \<Rightarrow> find_options" where
  "getAllStudents_findAll q =
     (let v = getAllStudents_locals q
      in \<lparr>fo_limit = limit v,
          fo_offset = num_times (num_minus_one (page v)) (limit v),
          fo_order = [(sortField v, sortOrder v)],
          fo_include = include_opt v\<rparr>)"

text \<open>\<^verbatim>\<open>count\<close> is awaited before the \<^verbatim>\<open>try\<close> block: an error there is not caught.\<close>

definition getAllStudents :: "('s, 'k) model_api \<Rightarrow> 's \<Rightarrow> 'k request \<Rightarrow> reply" where
  "getAllStudents db s req =
     (let v = getAllStudents_locals (query req) in
      case db_count db s of
        Inl err \<Rightarrow> Rejected err
      | Inr tot \<Rightarrow>
          (case db_findAll db s (getAllStudents_findAll (query req)) of
             Inl err \<Rightarrow> Reply 500 (error_body err)
           | Inr students \<Rightarrow>
               Reply 200 (JObj
                 [(''meta'', JObj [(''totalItems'', JNum (int tot)),
                                   (''page'', number_json (page v)),
                                   (''totalPages'', totalPages_json (int tot) (limit v))]),
                  (''data'', JArr students)])))"

definition getStudentById_include :: "query \<Rightarrow> include_item list" where
  "getStudentById_include q =
     (let populate = (case q_populate q of None \<Rightarrow> []
                      | Some p \<Rightarrow> map trim (split CHR '','' (toLowerCase p)))
      in if array_includes populate ''courses'' \<or> array_includes populate ''course''
         then [Include Course (Some [])
                 (if array_includes populate ''teacher''
                  then Some [Include Teacher None None] else None)]
         else [])"

definition getStudentById :: "('s, 'k) model_api \<Rightarrow> 's \<Rightarrow> 'k request \<Rightarrow> reply" where
  "getStudentById db s req =
     (case db_findByPk db s (params_id req) (getStudentById_include (query req)) of
        Inl err \<Rightarrow> Reply 500 (error_body err)
      | Inr None \<Rightarrow> Reply 404 (message_body ''Not found'')
      | Inr (Some student) \<Rightarrow> Reply 200 student)"

text \<open>\<^verbatim>\<open>updateStudent\<close> and \<^verbatim>\<open>deleteStudent\<close> change the store: they return the reply
  and the state of the store afterwards. \<^verbatim>\<open>findByPk\<close> is called without options there,
  which is an empty include.\<close>

definition updateStudent :: "('s, 'k) model_api \<Rightarrow> 's \<Rightarrow> 'k request \<Rightarrow> reply \<times> 's" where
  "updateStudent db s req =
     (case db_findByPk db s (params_id req) [] of
        Inl err \<Rightarrow> (Reply 500 (error_body err), s)
      | Inr None \<Rightarrow> (Reply 404 (message_body ''Not found''), s)
      | Inr (Some student) \<Rightarrow>
          (case db_update db s (params_id req) (body req) of
             Inl err \<Rightarrow> (Reply 500 (error_body err), s)
           | Inr (student', s') \<Rightarrow> (Reply 200 student', s')))"

definition deleteStudent :: "('s, 'k) model_api \<Rightarrow> 's \<Rightarrow> 'k request \<Rightarrow> reply \<times> 's" where
  "deleteStudent db s req =
     (case db_findByPk db s (params_id req) [] of
        Inl err \<Rightarrow> (Reply 500 (error_body err), s)
      | Inr None \<Rightarrow> (Reply 404 (message_body ''Not found''), s)
      | Inr (Some student) \<Rightarrow>
          (case db_destroy db s (params_id req) of
             Inl err \<Rightarrow> (Reply 500 (error_body err), s)
           | Inr s' \<Rightarrow> (Reply 200 (message_body ''Deleted''), s')))"

section \<open>The teacher controller\<close>

text \<open>\<^verbatim>\<open>getAllTeachers\<close> builds the include before it looks at the \<^verbatim>\<open>Desc\<close> prefix;
  the Course include has no \<^verbatim>\<open>through\<close> key and the nested Student include has one.\<close>

definition getAllTeachers_locals :: "query \<Rightarrow> list_locals" where
  "getAllTeachers_locals q =
     (let lmt = num_or (parseInt_param (q_limit q)) (Num 10);
          pg = num_or (parseInt_param (q_page q)) (Num 1);
          sortby = str_or (q_sortby q) ''name'';
          populate = (case q_populate q of None \<Rightarrow> []
                      | Some p \<Rightarrow> map trim (split CHR '','' (toLowerCase p)));
          inc = (if array_includes populate ''courses'' \<or> array_includes populate ''course''
                 then [Include Course None
                         (if array_includes populate ''students'' \<or> array_includes populate ''student''
                          then Some [Include Student (Some []) None] else None)]
                 else []);
          desc = startsWith sortby ''Desc''
      in \<lparr>limit = lmt, page = pg,
          sortField = (if desc then substring sortby 4 else sortby),
          sortOrder = (if desc then DESC else ASC),
          include_opt = inc\<rparr>)"

definition getAllTeachers_findAll :: "query \<Rightarrow> find_options" where
  "getAllTeachers_findAll q =
     (let v = getAllTeachers_locals q
      in \<lparr>fo_limit = limit v,
          fo_offset = num_times (num_minus_one (page v)) (limit v),
          fo_order = [(sortField v, sortOrder v)],
          fo_include = include_opt v\<rparr>)"

text \<open>The meta object of \<^verbatim>\<open>getAllTeachers\<close> names the count \<^verbatim>\<open>totalItem\<close>.\<close>

definition getAllTeachers :: "('s, 'k) model_api \<Rightarrow> 's \<Rightarrow> 'k request \<Rightarrow> reply" where
  "getAllTeachers db s req =
     (let v = getAllTeachers_locals (query req) in
      case db_count db s of
        Inl err \<Rightarrow> Rejected err
      | Inr tot \<Rightarrow>
          (case db_findAll db s (getAllTeachers_findAll (query req)) of
             Inl err \<Rightarrow> Reply 500 (error_body err)
           | Inr teachers \<Rightarrow>
               Reply 200 (JObj
                 [(''meta'', JObj [(''totalItem'', JNum (int tot)),
                                   (''page'', number_json (page v)),
                                   (''totalPages'', totalPages_json (int tot) (limit v))]),
                  (''data'', JArr teachers)])))"

definition getTeacherById_include :: "query \<Rightarrow> include_item list" where
  "getTeacherById_include q =
     (let populate = (case q_populate q of None \<Rightarrow> []
                      | Some p \<Rightarrow> map trim (split CHR '','' (toLowerCase p)))
      in if array_includes populate ''courses'' \<or> array_includes populate ''course''
         then [Include Course None
                 (if array_includes populate ''students'' \<or> array_includes populate ''student''
                  then Some [Include Student (Some []) None] else None)]
         else [])"

definition getTeacherById :: "('s, 'k) model_api \<Rightarrow> 's \<Rightarrow> 'k request \<Rightarrow> reply" where
  "getTeacherById db s req =
     (case db_findByPk db s (params_id req) (getTeacherById_include (query req)) of
        Inl err \<Rightarrow> Reply 500 (error_body err)
      | Inr None \<Rightarrow> Reply 404 (message_body ''Not found'')
      | Inr (Some teacher) \<Rightarrow> Reply 200 teacher)"

definition updateTeacher :: "('s, 'k) model_api \<Rightarrow> 's \<Rightarrow> 'k request \<Rightarrow> reply \<times> 's" where
  "updateTeacher db s req =
     (case db_findByPk db s (params_id req) [] of
        Inl err \<Rightarrow> (Reply 500 (error_body err), s)
      | Inr None \<Rightarrow> (Reply 404 (message_body ''Not found''), s)
      | Inr (Some teacher) \<Rightarrow>
          (case db_update db s (params_id req) (body req) of
             Inl err \<Rightarrow> (Reply 500 (error_body err), s)
           | Inr (teacher', s') \<Rightarrow> (Reply 200 teacher', s')))"

definition deleteTeacher :: "('s, 'k) model_api \<Rightarrow> 's \<Rightarrow> 'k request \<Rightarrow> reply \<times> 's" where
  "deleteTeacher db s req =
     (case db_findByPk db s (params_id req) [] of
        Inl err \<Rightarrow> (Reply 500 (error_body err), s)
      | Inr None \<Rightarrow> (Reply 404 (message_body ''Not found''), s)
      | Inr (Some teacher) \<Rightarrow>
          (case db_destroy db s (params_id req) of
             Inl err \<Rightarrow> (Reply 500 (error_body err), s)
           | Inr s' \<Rightarrow> (Reply 200 (message_body ''Deleted''), s')))"

section \<open>A store for the data layer\<close>

text \<open>
  Modelled from the spec: the data-access layer (\<^verbatim>\<open>models/index.js\<close> and the ORM behind
  it) is not among the controllers' sources. The specification gives its contract per
  entity: \<open>list(plan) \<rightarrow> (entities, totalCount)\<close>, \<open>getById(id, includes) \<rightarrow> entity | NotFound\<close>,
  \<open>update(id, payload) \<rightarrow> entity | NotFound\<close>, \<open>delete(id) \<rightarrow> success | NotFound\<close>, with
  partial record fields as the payload of an update. The store is the list of the stored
  records with their keys. Which of the stored rows a listing returns and in what order
  is the query engine's: it is the parameter \<open>lst\<close>. The related rows that an include
  adds to a returned record are not modelled.
\<close>

type_synonym 'k table = "('k \<times> json) list"

text \<open>Modelled from the spec: the updated record of an update with partial record
  fields; each field of the payload is assigned to the record.\<close>

definition assign_fields :: "json \<Rightarrow> json \<Rightarrow> json" where
  "assign_fields row payload =
     (case (row, payload) of
        (JObj fs, JObj ps) \<Rightarrow> JObj (fold (\<lambda>(k, v). AList.update k v) ps fs)
      | _ \<Rightarrow> row)"

text \<open>Modelled from the spec: \<open>totalCount\<close>, the number of stored records.\<close>

definition store_count :: "'k table \<Rightarrow> string + nat" where
  "store_count t = Inr (length t)"

text \<open>Modelled from the spec: \<open>list(plan) \<rightarrow> entities\<close>, the engine's listing \<open>lst\<close> of
  the stored records under the options.\<close>

definition store_findAll ::
  "(json list \<Rightarrow> find_options \<Rightarrow> json list) \<Rightarrow> 'k table \<Rightarrow> find_options \<Rightarrow> string + json list" where
  "store_findAll lst t opts = Inr (lst (map snd t) opts)"

text \<open>Modelled from the spec: \<open>getById(id, includes) \<rightarrow> entity | NotFound\<close>; not found
  is the result \<^verbatim>\<open>null\<close> that the handlers test for.\<close>

definition store_findByPk :: "'k table \<Rightarrow> 'k \<Rightarrow> include_item list \<Rightarrow> string + json option" where
  "store_findByPk t k inc = Inr (map_of t k)"

text \<open>Modelled from the spec: \<open>update(id, payload) \<rightarrow> entity | NotFound\<close>.\<close>

definition store_update :: "'k table \<Rightarrow> 'k \<Rightarrow> json \<Rightarrow> string + json \<times> 'k table" where
  "store_update t k payload =
     (case map_of t k of
        None \<Rightarrow> Inl ''Not found''
      | Some row \<Rightarrow> Inr (assign_fields row payload, AList.update k (assign_fields row payload) t))"

text \<open>Modelled from the spec: \<open>delete(id) \<rightarrow> success | NotFound\<close>; success removes
  the record of that id.\<close>

definition store_destroy :: "'k table \<Rightarrow> 'k \<Rightarrow> string + 'k table" where
  "store_destroy t k =
     (case map_of t k of
        None \<Rightarrow> Inl ''Not found''
      | Some row \<Rightarrow> Inr (AList.delete k t))"

text \<open>Modelled from the spec: the data layer of one entity over the store.\<close>

definition store_api ::
  "(json list \<Rightarrow> find_options \<Rightarrow> json list) \<Rightarrow> ('k table, 'k) model_api" where
  "store_api lst =
     \<lparr>db_count = store_count,
      db_findAll = store_findAll lst,
      db_findByPk = store_findByPk,
      db_update = store_update,
      db_destroy = store_destroy\<rparr>"

text \<open>Modelled from the spec: the window of a plan, \<open>limit\<close> rows from \<open>offset\<close> on, over
  the rows in stored order, and no rows where the limit or the offset is not finite; one
  instance of \<open>lst\<close>, for evaluating a handler on a concrete store.\<close>

definition stored_order :: "json list \<Rightarrow> find_options \<Rightarrow> json list" where
  "stored_order rows opts =
     (case (fo_limit opts, fo_offset opts) of
        (Num l, Num off) \<Rightarrow> take (nat l) (drop (nat off) rows)
      | _ \<Rightarrow> [])"

text \<open>Member access \<^verbatim>\<open>obj.key\<close> on a JSON value; \<open>None\<close> is \<^verbatim>\<open>undefined\<close>.\<close>

definition member :: "json \<Rightarrow> string \<Rightarrow> json option" where
  "member obj key = (case obj of JObj fs \<Rightarrow> map_of fs key | _ \<Rightarrow> None)"

section \<open>Rounding\<close>

declare bit_length.simps [simp del]

lemma bit_length_lower: "0 < n \<Longrightarrow> 2 ^ (bit_length n - 1) \<le> n"
proof (induction n rule: bit_length.induct)
  case (1 n)
  show ?case
  proof (cases "n div 2 \<le> 0")
    case True
    with "1.prems" have n1: "n = 1" by presburger
    have "bit_length 1 = Suc 0"
      by (simp add: bit_length.simps [of 1] bit_length.simps [of 0])
    with n1 show ?thesis by simp
  next
    case False
    then have pos: "0 < n div 2" by simp
    have ih: "2 ^ (bit_length (n div 2) - 1) \<le> n div 2"
      using "1.IH" "1.prems" pos by simp
    have bl: "bit_length n = Suc (bit_length (n div 2))"
      using "1.prems" by (subst bit_length.simps) simp
    have bp: "0 < bit_length (n div 2)"
      using pos by (subst bit_length.simps) simp
    have "(2::int) ^ (bit_length n - 1) = 2 * 2 ^ (bit_length (n div 2) - 1)"
      using bl bp by (cases "bit_length (n div 2)") simp_all
    also have "\<dots> \<le> 2 * (n div 2)" using ih by simp
    also have "\<dots> \<le> n" by presburger
    finally show ?thesis .
  qed
qed

lemma round_magnitude_pos:
  assumes "0 < m"
  shows "0 < round_magnitude m"
proof -
  have "(2::int) ^ (bit_length m - 1) \<le> m" using assms by (rule bit_length_lower)
  moreover have "(2::int) ^ (bit_length m - 53) \<le> 2 ^ (bit_length m - 1)"
    by (rule power_increasing) simp_all
  ultimately have le: "(2::int) ^ (bit_length m - 53) \<le> m" by linarith
  have "0 < m div 2 ^ (bit_length m - 53)"
    using le by (simp add: pos_imp_zdiv_pos_iff)
  then show ?thesis by (simp add: round_magnitude_def Let_def)
qed

text \<open>Up to \<open>2^53\<close> in magnitude an integer is its own Number.\<close>

lemma round_exact:
  assumes "\<bar>x\<bar> \<le> 9007199254740992"
  shows "round_to_double x = Num x"
proof (cases "\<bar>x\<bar> < 9007199254740992")
  case True
  then show ?thesis by (simp only: round_to_double_def Let_def if_True)
next
  case False
  with assms have "x = 9007199254740992 \<or> x = - 9007199254740992" by linarith
  moreover have "round_to_double 9007199254740992 = Num 9007199254740992" by code_simp
  moreover have "round_to_double (- 9007199254740992) = Num (- 9007199254740992)" by code_simp
  ultimately show ?thesis by auto
qed

text \<open>Rounding keeps the sign, at every magnitude.\<close>

lemma round_negative:
  assumes "x < 0"
  shows "num_negative (round_to_double x) \<and> round_to_double x \<noteq> NaN \<and>
         round_to_double x \<noteq> Num 0"
proof -
  have "0 < round_magnitude \<bar>x\<bar>" using assms by (intro round_magnitude_pos) simp
  then show ?thesis using assms
    by (simp add: round_to_double_def Let_def num_negative_def)
qed

lemma round_positive:
  assumes "0 < x"
  shows "\<not> num_negative (round_to_double x) \<and> round_to_double x \<noteq> NaN \<and>
         round_to_double x \<noteq> Num 0"
proof -
  have "0 < round_magnitude \<bar>x\<bar>" using assms by (intro round_magnitude_pos) simp
  then show ?thesis using assms
    by (simp add: round_to_double_def Let_def num_negative_def)
qed

lemma times_negative:
  assumes "x \<noteq> NaN" "x \<noteq> Num 0" "y \<noteq> NaN" "y \<noteq> Num 0"
    and "num_negative x \<noteq> num_negative y"
  shows "num_negative (num_times x y)"
proof (cases "\<exists>a b. x = Num a \<and> y = Num b")
  case True
  then obtain a b where ab: "x = Num a" "y = Num b" by blast
  with assms have "a \<noteq> 0" "b \<noteq> 0" "(a < 0) \<noteq> (b < 0)"
    by (auto simp: num_negative_def)
  then have "a * b < 0" by (auto simp: mult_less_0_iff)
  then show ?thesis using ab by (simp add: num_times_def round_negative)
next
  case False
  then have "num_times x y = NegInfinity"
    using assms by (cases x; cases y) (auto simp: num_times_def)
  then show ?thesis by (simp add: num_negative_def)
qed

text \<open>Above \<open>2^53\<close>: \<^verbatim>\<open>parseInt("9007199254740993")\<close> is \<open>9007199254740992\<close>, an integer
  of 401 digits is \<^verbatim>\<open>Infinity\<close>, and \<^verbatim>\<open>(1 - 1) * Infinity\<close> is \<^verbatim>\<open>NaN\<close>.\<close>

lemma rounding_samples:
  "parseInt_param (Some ''9007199254740993'') = Num 9007199254740992"
  "round_to_double (10 ^ 400) = PosInfinity"
  "num_times (num_minus_one (Num 1)) PosInfinity = NaN"
  by code_simp+

lemma offset_exact:
  assumes "\<bar>(p - 1) * l\<bar> \<le> 9007199254740992" and "l \<noteq> 0"
  shows "num_times (num_minus_one (Num p)) (Num l) = Num ((p - 1) * l)"
proof -
  have "1 \<le> \<bar>l\<bar>" using assms(2) by simp
  then have "\<bar>p - 1\<bar> * 1 \<le> \<bar>p - 1\<bar> * \<bar>l\<bar>" by (intro mult_left_mono) simp_all
  then have "\<bar>p - 1\<bar> \<le> \<bar>(p - 1) * l\<bar>" by (simp add: abs_mult)
  with assms(1) have "\<bar>p - 1\<bar> \<le> 9007199254740992" by linarith
  then have "num_minus_one (Num p) = Num (p - 1)"
    by (simp add: num_minus_one_def round_exact)
  then show ?thesis using assms(1) by (simp add: num_times_def round_exact)
qed


section \<open>Pagination\<close>

lemma parseInt_param_absent: "parseInt_param None = NaN"
  by (simp add: parseInt_param_def js_parseInt_def is_white_space_def code_unit_def
      is_radix_digit_def digit_value_def)

lemma limit_locals:
  "limit (getAllStudents_locals q) = num_or (parseInt_param (q_limit q)) (Num 10)"
  "limit (getAllTeachers_locals q) = num_or (parseInt_param (q_limit q)) (Num 10)"
  by (simp_all add: getAllStudents_locals_def getAllTeachers_locals_def Let_def)

lemma page_locals:
  "page (getAllStudents_locals q) = num_or (parseInt_param (q_page q)) (Num 1)"
  "page (getAllTeachers_locals q) = num_or (parseInt_param (q_page q)) (Num 1)"
  by (simp_all add: getAllStudents_locals_def getAllTeachers_locals_def Let_def)

lemma findAll_window:
  "fo_limit (getAllStudents_findAll q) = limit (getAllStudents_locals q)"
  "fo_offset (getAllStudents_findAll q) =
     num_times (num_minus_one (page (getAllStudents_locals q))) (limit (getAllStudents_locals q))"
  "fo_limit (getAllTeachers_findAll q) = limit (getAllTeachers_locals q)"
  "fo_offset (getAllTeachers_findAll q) =
     num_times (num_minus_one (page (getAllTeachers_locals q))) (limit (getAllTeachers_locals q))"
  by (simp_all add: getAllStudents_findAll_def getAllTeachers_findAll_def Let_def)

text \<open>
  C1. In \<^verbatim>\<open>getAllStudents\<close> and \<^verbatim>\<open>getAllTeachers\<close>: when the \<open>limit\<close> parameter is
  absent, or \<^verbatim>\<open>parseInt\<close> of it is \<^verbatim>\<open>NaN\<close>, the limit is 10, in the local variable and
  in the options handed to \<^verbatim>\<open>findAll\<close>; when the \<open>page\<close> parameter is absent, or
  \<^verbatim>\<open>parseInt\<close> of it is \<^verbatim>\<open>NaN\<close>, the page is 1.
\<close>

theorem limit_page_defaults:
  "(q_limit q = None \<or> parseInt_param (q_limit q) = NaN \<longrightarrow>
      limit (getAllStudents_locals q) = Num 10 \<and> fo_limit (getAllStudents_findAll q) = Num 10 \<and>
      limit (getAllTeachers_locals q) = Num 10 \<and> fo_limit (getAllTeachers_findAll q) = Num 10) \<and>
   (q_page q = None \<or> parseInt_param (q_page q) = NaN \<longrightarrow>
      page (getAllStudents_locals q) = Num 1 \<and> page (getAllTeachers_locals q) = Num 1)"
proof -
  have "parseInt_param (q_limit q) = NaN"
    if "q_limit q = None \<or> parseInt_param (q_limit q) = NaN"
    using that parseInt_param_absent by auto
  moreover have "parseInt_param (q_page q) = NaN"
    if "q_page q = None \<or> parseInt_param (q_page q) = NaN"
    using that parseInt_param_absent by auto
  ultimately show ?thesis
    by (auto simp: limit_locals page_locals findAll_window num_or_def)
qed

theorem limit_page_defaults_witness:
  "parseInt_param (Some ''abc'') = NaN \<and>
   limit (getAllStudents_locals
     \<lparr>q_limit = Some ''abc'', q_page = None, q_sortby = None, q_populate = None\<rparr>) = Num 10 \<and>
   fo_limit (getAllTeachers_findAll
     \<lparr>q_limit = Some ''abc'', q_page = None, q_sortby = None, q_populate = None\<rparr>) = Num 10 \<and>
   page (getAllStudents_locals
     \<lparr>q_limit = Some ''abc'', q_page = None, q_sortby = None, q_populate = None\<rparr>) = Num 1 \<and>
   page (getAllTeachers_locals
     \<lparr>q_limit = Some ''abc'', q_page = None, q_sortby = None, q_populate = None\<rparr>) = Num 1"
proof -
  have h: "parseInt_param (Some ''abc'') = NaN"
    by (simp add: parseInt_param_def js_parseInt_def is_white_space_def code_unit_def
      is_radix_digit_def digit_value_def)
  show ?thesis
    using h limit_page_defaults
      [of "\<lparr>q_limit = Some ''abc'', q_page = None, q_sortby = None, q_populate = None\<rparr>"]
    by simp
qed

lemma parse_large:
  "parseInt_param (Some ''4294967298'') = Num 4294967298"
  "parseInt_param (Some ''4294967297'') = Num 4294967297"
  by code_simp+

lemma product_rounded:
  "num_times (num_minus_one (Num 4294967298)) (Num 4294967297) = Num 18446744082299486208"
  by code_simp

text \<open>
  C2, as it is stated, at \<^verbatim>\<open>page=4294967298&limit=4294967297\<close>: \<^verbatim>\<open>parseInt\<close> gives
  \<open>p = 4294967298\<close> and \<open>l = 4294967297\<close>, both at least 1, and the offset handed to
  \<^verbatim>\<open>findAll\<close> is \<open>18446744082299486208\<close>, the nearest double to the product, and not
  \<open>(p - 1) * l = 18446744082299486209\<close>.
\<close>

theorem offset_rounded_counterexample:
  "parseInt_param (Some ''4294967298'') = Num 4294967298 \<and>
   parseInt_param (Some ''4294967297'') = Num 4294967297 \<and>
   fo_offset (getAllStudents_findAll
     \<lparr>q_limit = Some ''4294967297'', q_page = Some ''4294967298'', q_sortby = None,
      q_populate = None\<rparr>) = Num 18446744082299486208 \<and>
   fo_offset (getAllStudents_findAll
     \<lparr>q_limit = Some ''4294967297'', q_page = Some ''4294967298'', q_sortby = None,
      q_populate = None\<rparr>) \<noteq> Num ((4294967298 - 1) * 4294967297) \<and>
   fo_offset (getAllTeachers_findAll
     \<lparr>q_limit = Some ''4294967297'', q_page = Some ''4294967298'', q_sortby = None,
      q_populate = None\<rparr>) \<noteq> Num ((4294967298 - 1) * 4294967297)"
  by (simp add: findAll_window limit_locals page_locals num_or_def parse_large product_rounded)

text \<open>
  C2, amended. In \<^verbatim>\<open>getAllStudents\<close> and \<^verbatim>\<open>getAllTeachers\<close>: when \<^verbatim>\<open>parseInt\<close> gives
  \<open>p\<close> for the \<open>page\<close> parameter and \<open>l\<close> for the \<open>limit\<close> parameter, with \<open>p \<ge> 1\<close>,
  \<open>l \<ge> 1\<close> and \<open>(p - 1) * l\<close> at most \<open>2^53 = 9007199254740992\<close>, the offset in the
  options handed to \<^verbatim>\<open>findAll\<close> is \<open>(p - 1) * l\<close>.
\<close>

theorem offset_of_page_and_limit:
  assumes "parseInt_param (q_page q) = Num p" and "parseInt_param (q_limit q) = Num l"
    and "1 \<le> p" and "1 \<le> l" and "(p - 1) * l \<le> 9007199254740992"
  shows "fo_offset (getAllStudents_findAll q) = Num ((p - 1) * l) \<and>
         fo_offset (getAllTeachers_findAll q) = Num ((p - 1) * l)"
proof -
  have "0 \<le> (p - 1) * l" using assms(3,4) by simp
  with assms(5) have "\<bar>(p - 1) * l\<bar> \<le> 9007199254740992" by simp
  moreover have "l \<noteq> 0" using assms(4) by simp
  ultimately have "num_times (num_minus_one (Num p)) (Num l) = Num ((p - 1) * l)"
    by (rule offset_exact)
  then show ?thesis
    using assms by (simp add: findAll_window limit_locals page_locals num_or_def)
qed

theorem offset_of_page_and_limit_witness:
  "parseInt_param (Some ''3'') = Num 3 \<and> parseInt_param (Some ''20'') = Num 20 \<and>
   fo_offset (getAllStudents_findAll
     \<lparr>q_limit = Some ''20'', q_page = Some ''3'', q_sortby = None, q_populate = None\<rparr>)
     = Num 40 \<and>
   fo_offset (getAllTeachers_findAll
     \<lparr>q_limit = Some ''20'', q_page = Some ''3'', q_sortby = None, q_populate = None\<rparr>)
     = Num 40"
proof -
  have p: "parseInt_param (Some ''3'') = Num 3"
    by (simp add: parseInt_param_def js_parseInt_def is_white_space_def code_unit_def
      is_radix_digit_def digit_value_def round_to_double_def)
  have l: "parseInt_param (Some ''20'') = Num 20"
    by (simp add: parseInt_param_def js_parseInt_def is_white_space_def code_unit_def
      is_radix_digit_def digit_value_def round_to_double_def)
  show ?thesis
    using p l offset_of_page_and_limit
      [of "\<lparr>q_limit = Some ''20'', q_page = Some ''3'', q_sortby = None, q_populate = None\<rparr>" 3 20]
    by simp
qed


section \<open>Sorting\<close>

lemma sort_locals:
  "sortField (getAllStudents_locals q) =
     (if startsWith (str_or (q_sortby q) ''name'') ''Desc''
      then substring (str_or (q_sortby q) ''name'') 4 else str_or (q_sortby q) ''name'')"
  "sortOrder (getAllStudents_locals q) =
     (if startsWith (str_or (q_sortby q) ''name'') ''Desc'' then DESC else ASC)"
  "sortField (getAllTeachers_locals q) =
     (if startsWith (str_or (q_sortby q) ''name'') ''Desc''
      then substring (str_or (q_sortby q) ''name'') 4 else str_or (q_sortby q) ''name'')"
  "sortOrder (getAllTeachers_locals q) =
     (if startsWith (str_or (q_sortby q) ''name'') ''Desc'' then DESC else ASC)"
  by (simp_all add: getAllStudents_locals_def getAllTeachers_locals_def Let_def)

lemma findAll_order:
  "fo_order (getAllStudents_findAll q) =
     [(sortField (getAllStudents_locals q), sortOrder (getAllStudents_locals q))]"
  "fo_order (getAllTeachers_findAll q) =
     [(sortField (getAllTeachers_locals q), sortOrder (getAllTeachers_locals q))]"
  by (simp_all add: getAllStudents_findAll_def getAllTeachers_findAll_def Let_def)

lemma name_not_Desc: "\<not> startsWith ''name'' ''Desc''"
  by (simp add: startsWith_def)

lemma startsWith_nonempty: "startsWith s ''Desc'' \<Longrightarrow> s \<noteq> []"
  by (auto simp: startsWith_def)

text \<open>
  C3, as it is stated, at the value \<^verbatim>\<open>sortby=\<close> (present and empty): the empty string does
  not start with \<^verbatim>\<open>Desc\<close>, and the sort field is not the empty string, since
  \<^verbatim>\<open>req.query.sortby || 'name'\<close> takes the default for it.
\<close>

theorem sortby_empty_counterexample:
  "\<not> startsWith '''' ''Desc'' \<and>
   sortField (getAllStudents_locals
     \<lparr>q_limit = None, q_page = None, q_sortby = Some '''', q_populate = None\<rparr>) \<noteq> '''' \<and>
   sortField (getAllTeachers_locals
     \<lparr>q_limit = None, q_page = None, q_sortby = Some '''', q_populate = None\<rparr>) \<noteq> ''''"
  by (simp add: sort_locals str_or_def startsWith_def)

text \<open>
  C3, amended. In \<^verbatim>\<open>getAllStudents\<close> and \<^verbatim>\<open>getAllTeachers\<close>, for the order handed to
  \<^verbatim>\<open>findAll\<close>: a \<open>sortby\<close> that starts with \<^verbatim>\<open>Desc\<close> gives the value without its first
  four characters, descending; any other non-empty \<open>sortby\<close> gives the value as it is,
  ascending; an absent or empty \<open>sortby\<close> gives \<^verbatim>\<open>name\<close>, ascending.
\<close>

theorem sortby_resolution:
  "(q_sortby q = Some s \<and> startsWith s ''Desc'' \<longrightarrow>
      fo_order (getAllStudents_findAll q) = [(drop 4 s, DESC)] \<and>
      fo_order (getAllTeachers_findAll q) = [(drop 4 s, DESC)]) \<and>
   (q_sortby q = Some s \<and> s \<noteq> [] \<and> \<not> startsWith s ''Desc'' \<longrightarrow>
      fo_order (getAllStudents_findAll q) = [(s, ASC)] \<and>
      fo_order (getAllTeachers_findAll q) = [(s, ASC)]) \<and>
   (q_sortby q = None \<or> q_sortby q = Some [] \<longrightarrow>
      fo_order (getAllStudents_findAll q) = [(''name'', ASC)] \<and>
      fo_order (getAllTeachers_findAll q) = [(''name'', ASC)])"
proof -
  have a: "str_or (q_sortby q) ''name'' = s" if "q_sortby q = Some s" "s \<noteq> []"
    using that by (simp add: str_or_def)
  have b: "str_or (q_sortby q) ''name'' = ''name''" if "q_sortby q = None \<or> q_sortby q = Some []"
    using that by (auto simp: str_or_def)
  show ?thesis
    using a b startsWith_nonempty [of s] name_not_Desc
    by (auto simp: findAll_order sort_locals substring_def)
qed

theorem sortby_resolution_witness:
  "startsWith ''DescCreatedAt'' ''Desc'' \<and>
   fo_order (getAllStudents_findAll
     \<lparr>q_limit = None, q_page = None, q_sortby = Some ''DescCreatedAt'', q_populate = None\<rparr>)
     = [(''CreatedAt'', DESC)] \<and>
   fo_order (getAllTeachers_findAll
     \<lparr>q_limit = None, q_page = None, q_sortby = Some ''DescCreatedAt'', q_populate = None\<rparr>)
     = [(''CreatedAt'', DESC)] \<and>
   \<not> startsWith ''Name'' ''Desc'' \<and>
   fo_order (getAllStudents_findAll
     \<lparr>q_limit = None, q_page = None, q_sortby = Some ''Name'', q_populate = None\<rparr>)
     = [(''Name'', ASC)] \<and>
   fo_order (getAllTeachers_findAll
     \<lparr>q_limit = None, q_page = None, q_sortby = Some ''Name'', q_populate = None\<rparr>)
     = [(''Name'', ASC)] \<and>
   fo_order (getAllStudents_findAll
     \<lparr>q_limit = None, q_page = None, q_sortby = None, q_populate = None\<rparr>)
     = [(''name'', ASC)] \<and>
   fo_order (getAllTeachers_findAll
     \<lparr>q_limit = None, q_page = None, q_sortby = None, q_populate = None\<rparr>)
     = [(''name'', ASC)]"
proof -
  have d: "startsWith ''DescCreatedAt'' ''Desc''" by (simp add: startsWith_def)
  have n: "\<not> startsWith ''Name'' ''Desc''" by (simp add: startsWith_def)
  show ?thesis
    using d n
      sortby_resolution [of "\<lparr>q_limit = None, q_page = None, q_sortby = Some ''DescCreatedAt'', q_populate = None\<rparr>" "''DescCreatedAt''"]
      sortby_resolution [of "\<lparr>q_limit = None, q_page = None, q_sortby = Some ''Name'', q_populate = None\<rparr>" "''Name''"]
      sortby_resolution [of "\<lparr>q_limit = None, q_page = None, q_sortby = None, q_populate = None\<rparr>" "''''"]
    by simp
qed


section \<open>Zero and negative pages and limits\<close>

lemma parse_samples:
  "parseInt_param (Some ''0'') = Num 0"
  "parseInt_param (Some ''-5'') = Num (- 5)"
  "parseInt_param (Some ''3'') = Num 3"
  by (simp_all add: parseInt_param_def js_parseInt_def is_white_space_def code_unit_def
      is_radix_digit_def digit_value_def round_to_double_def)

lemma first_page_offset: "num_times (num_minus_one (Num 1)) (Num 10) = Num 0"
  using offset_exact [of 1 10] by simp

text \<open>
  C6, as it is stated, at its own example \<^verbatim>\<open>page=0\<close>: \<^verbatim>\<open>parseInt\<close> gives 0, the page
  used is not 0, and the offset is not negative, since \<^verbatim>\<open>parseInt(req.query.page) || 1\<close>
  takes the default for 0.
\<close>

theorem page_zero_counterexample:
  "parseInt_param (Some ''0'') = Num 0 \<and>
   page (getAllStudents_locals
     \<lparr>q_limit = None, q_page = Some ''0'', q_sortby = None, q_populate = None\<rparr>) \<noteq> Num 0 \<and>
   \<not> num_negative (fo_offset (getAllStudents_findAll
     \<lparr>q_limit = None, q_page = Some ''0'', q_sortby = None, q_populate = None\<rparr>)) \<and>
   page (getAllTeachers_locals
     \<lparr>q_limit = None, q_page = Some ''0'', q_sortby = None, q_populate = None\<rparr>) \<noteq> Num 0 \<and>
   \<not> num_negative (fo_offset (getAllTeachers_findAll
     \<lparr>q_limit = None, q_page = Some ''0'', q_sortby = None, q_populate = None\<rparr>))"
  by (simp add: parse_samples findAll_window limit_locals page_locals num_or_def
      parseInt_param_absent first_page_offset num_negative_def)

text \<open>
  C6, amended. In \<^verbatim>\<open>getAllStudents\<close> and \<^verbatim>\<open>getAllTeachers\<close>: a page or a limit that
  \<^verbatim>\<open>parseInt\<close> gives and that is neither \<^verbatim>\<open>NaN\<close> nor 0 is used as it is, negative values
  included; the offset handed to \<^verbatim>\<open>findAll\<close> is negative for a negative page with a
  positive limit and for a page above 1 with a negative limit, and it is \<open>(p - 1) * l\<close>
  where that product is at most \<open>2^53\<close> in magnitude; a page that parses to 0 is replaced
  by 1 and a limit that parses to 0 by 10.
\<close>

theorem negative_values_unguarded:
  "(parseInt_param (q_page q) = v \<and> v \<noteq> NaN \<and> v \<noteq> Num 0 \<longrightarrow>
      page (getAllStudents_locals q) = v \<and> page (getAllTeachers_locals q) = v) \<and>
   (parseInt_param (q_limit q) = w \<and> w \<noteq> NaN \<and> w \<noteq> Num 0 \<longrightarrow>
      fo_limit (getAllStudents_findAll q) = w \<and> fo_limit (getAllTeachers_findAll q) = w) \<and>
   (parseInt_param (q_page q) = Num p \<and> parseInt_param (q_limit q) = Num l \<and>
    ((p < 0 \<and> 0 < l) \<or> (1 < p \<and> l < 0)) \<longrightarrow>
      num_negative (fo_offset (getAllStudents_findAll q)) \<and>
      num_negative (fo_offset (getAllTeachers_findAll q))) \<and>
   (parseInt_param (q_page q) = Num p \<and> p \<noteq> 0 \<and>
    parseInt_param (q_limit q) = Num l \<and> l \<noteq> 0 \<and>
    \<bar>(p - 1) * l\<bar> \<le> 9007199254740992 \<longrightarrow>
      fo_offset (getAllStudents_findAll q) = Num ((p - 1) * l) \<and>
      fo_offset (getAllTeachers_findAll q) = Num ((p - 1) * l)) \<and>
   (parseInt_param (q_page q) = Num 0 \<longrightarrow>
      page (getAllStudents_locals q) = Num 1 \<and> page (getAllTeachers_locals q) = Num 1) \<and>
   (parseInt_param (q_limit q) = Num 0 \<longrightarrow>
      fo_limit (getAllStudents_findAll q) = Num 10 \<and>
      fo_limit (getAllTeachers_findAll q) = Num 10)"
proof -
  have sign: "num_negative (num_times (num_minus_one (Num p)) (Num l))"
    if "(p < 0 \<and> 0 < l) \<or> (1 < p \<and> l < 0)"
  proof -
    from that have "(p - 1 < 0 \<and> 0 < l) \<or> (0 < p - 1 \<and> l < 0)" by auto
    then show ?thesis
      using round_negative [of "p - 1"] round_positive [of "p - 1"]
      by (intro times_negative) (auto simp: num_minus_one_def num_negative_def)
  qed
  have exact: "num_times (num_minus_one (Num p)) (Num l) = Num ((p - 1) * l)"
    if "\<bar>(p - 1) * l\<bar> \<le> 9007199254740992" "l \<noteq> 0"
    using that by (rule offset_exact)
  show ?thesis
    using sign exact
    by (auto simp: findAll_window limit_locals page_locals num_or_def)
qed

theorem negative_values_unguarded_witness:
  "parseInt_param (Some ''3'') = Num 3 \<and> parseInt_param (Some ''-5'') = Num (- 5) \<and>
   page (getAllStudents_locals
     \<lparr>q_limit = Some ''-5'', q_page = Some ''3'', q_sortby = None, q_populate = None\<rparr>) = Num 3 \<and>
   fo_limit (getAllTeachers_findAll
     \<lparr>q_limit = Some ''-5'', q_page = Some ''3'', q_sortby = None, q_populate = None\<rparr>)
     = Num (- 5) \<and>
   fo_offset (getAllStudents_findAll
     \<lparr>q_limit = Some ''-5'', q_page = Some ''3'', q_sortby = None, q_populate = None\<rparr>)
     = Num (- 10) \<and>
   num_negative (fo_offset (getAllTeachers_findAll
     \<lparr>q_limit = Some ''-5'', q_page = Some ''3'', q_sortby = None, q_populate = None\<rparr>)) \<and>
   parseInt_param (Some ''0'') = Num 0 \<and>
   page (getAllTeachers_locals
     \<lparr>q_limit = Some ''0'', q_page = Some ''0'', q_sortby = None, q_populate = None\<rparr>) = Num 1 \<and>
   fo_limit (getAllStudents_findAll
     \<lparr>q_limit = Some ''0'', q_page = Some ''0'', q_sortby = None, q_populate = None\<rparr>) = Num 10"
  using parse_samples
    negative_values_unguarded [of "\<lparr>q_limit = Some ''-5'', q_page = Some ''3'', q_sortby = None, q_populate = None\<rparr>" "Num 3" "Num (- 5)" 3 "- 5"]
    negative_values_unguarded [of "\<lparr>q_limit = Some ''0'', q_page = Some ''0'', q_sortby = None, q_populate = None\<rparr>" "Num 0" "Num 0" 0 0]
  by (simp add: num_negative_def)


section \<open>Populate\<close>

lemma findAll_include:
  "fo_include (getAllStudents_findAll q) = include_opt (getAllStudents_locals q)"
  "fo_include (getAllTeachers_findAll q) = include_opt (getAllTeachers_locals q)"
  by (simp_all add: getAllStudents_findAll_def getAllTeachers_findAll_def Let_def)

lemma student_include_tokens:
  assumes "q_populate q = Some p"
  shows "include_opt (getAllStudents_locals q) =
     (if ''courses'' \<in> set (map trim (split CHR '','' (toLowerCase p))) \<or>
         ''course'' \<in> set (map trim (split CHR '','' (toLowerCase p)))
      then [Include Course (Some [])
              (if ''teacher'' \<in> set (map trim (split CHR '','' (toLowerCase p)))
               then Some [Include Teacher None None] else None)]
      else [])"
    and "getStudentById_include q =
     (if ''courses'' \<in> set (map trim (split CHR '','' (toLowerCase p))) \<or>
         ''course'' \<in> set (map trim (split CHR '','' (toLowerCase p)))
      then [Include Course (Some [])
              (if ''teacher'' \<in> set (map trim (split CHR '','' (toLowerCase p)))
               then Some [Include Teacher None None] else None)]
      else [])"
  using assms
  by (simp_all add: getAllStudents_locals_def getStudentById_include_def Let_def
      array_includes_def)

lemma teacher_include_tokens:
  assumes "q_populate q = Some p"
  shows "include_opt (getAllTeachers_locals q) =
     (if ''courses'' \<in> set (map trim (split CHR '','' (toLowerCase p))) \<or>
         ''course'' \<in> set (map trim (split CHR '','' (toLowerCase p)))
      then [Include Course None
              (if ''students'' \<in> set (map trim (split CHR '','' (toLowerCase p))) \<or>
                  ''student'' \<in> set (map trim (split CHR '','' (toLowerCase p)))
               then Some [Include Student (Some []) None] else None)]
      else [])"
    and "getTeacherById_include q =
     (if ''courses'' \<in> set (map trim (split CHR '','' (toLowerCase p))) \<or>
         ''course'' \<in> set (map trim (split CHR '','' (toLowerCase p)))
      then [Include Course None
              (if ''students'' \<in> set (map trim (split CHR '','' (toLowerCase p))) \<or>
                  ''student'' \<in> set (map trim (split CHR '','' (toLowerCase p)))
               then Some [Include Student (Some []) None] else None)]
      else [])"
  using assms
  by (simp_all add: getAllTeachers_locals_def getTeacherById_include_def Let_def
      array_includes_def)

lemma token_samples:
  "map trim (split CHR '','' (toLowerCase ''course, teacher'')) = [''course'', ''teacher'']"
  "map trim (split CHR '','' (toLowerCase ''Course'')) = [''course'']"
  "map trim (split CHR '','' (toLowerCase ''student'')) = [''student'']"
  by (simp_all add: trim_def toLowerCase_def lower_unit_def is_white_space_def code_unit_def
      char_of_eq_iff)

text \<open>
  C4. For a Student request with a populate parameter, in \<^verbatim>\<open>getAllStudents\<close> and
  \<^verbatim>\<open>getStudentById\<close>, with \<open>toks\<close> the parameter lower-cased, split at commas and
  trimmed: when \<open>toks\<close> has \<^verbatim>\<open>course\<close> or \<^verbatim>\<open>courses\<close> and also \<^verbatim>\<open>teacher\<close>, the include is
  the Course relation (join attributes excluded) with the Teacher relation nested in it;
  when it has \<^verbatim>\<open>course\<close> or \<^verbatim>\<open>courses\<close> and not \<^verbatim>\<open>teacher\<close>, the include is the Course
  relation with nothing nested; when it has neither \<^verbatim>\<open>course\<close> nor \<^verbatim>\<open>courses\<close>, the
  include is empty. In particular \<^verbatim>\<open>populate=course, teacher\<close> gives Course with
  Teacher nested and \<^verbatim>\<open>populate=Course\<close> gives Course alone, as evaluated below.
\<close>

theorem student_populate_include:
  assumes "q_populate q = Some p" and "toks = map trim (split CHR '','' (toLowerCase p))"
  shows
   "((''course'' \<in> set toks \<or> ''courses'' \<in> set toks) \<and> ''teacher'' \<in> set toks \<longrightarrow>
       fo_include (getAllStudents_findAll q)
         = [Include Course (Some []) (Some [Include Teacher None None])] \<and>
       getStudentById_include q
         = [Include Course (Some []) (Some [Include Teacher None None])]) \<and>
    ((''course'' \<in> set toks \<or> ''courses'' \<in> set toks) \<and> ''teacher'' \<notin> set toks \<longrightarrow>
       fo_include (getAllStudents_findAll q) = [Include Course (Some []) None] \<and>
       getStudentById_include q = [Include Course (Some []) None]) \<and>
    (''course'' \<notin> set toks \<and> ''courses'' \<notin> set toks \<longrightarrow>
       fo_include (getAllStudents_findAll q) = [] \<and> getStudentById_include q = [])"
  unfolding findAll_include student_include_tokens [OF assms(1)] assms(2) by auto

theorem student_populate_include_witness:
  "fo_include (getAllStudents_findAll
      \<lparr>q_limit = None, q_page = None, q_sortby = None, q_populate = Some ''course, teacher''\<rparr>)
      = [Include Course (Some []) (Some [Include Teacher None None])] \<and>
   getStudentById_include
      \<lparr>q_limit = None, q_page = None, q_sortby = None, q_populate = Some ''course, teacher''\<rparr>
      = [Include Course (Some []) (Some [Include Teacher None None])] \<and>
   fo_include (getAllStudents_findAll
      \<lparr>q_limit = None, q_page = None, q_sortby = None, q_populate = Some ''Course''\<rparr>)
      = [Include Course (Some []) None] \<and>
   getStudentById_include
      \<lparr>q_limit = None, q_page = None, q_sortby = None, q_populate = Some ''Course''\<rparr>
      = [Include Course (Some []) None]"
  using
    student_populate_include [of "\<lparr>q_limit = None, q_page = None, q_sortby = None, q_populate = Some ''course, teacher''\<rparr>"
      "''course, teacher''" "[''course'', ''teacher'']"]
    student_populate_include [of "\<lparr>q_limit = None, q_page = None, q_sortby = None, q_populate = Some ''Course''\<rparr>"
      "''Course''" "[''course'']"]
  by (simp add: token_samples)

text \<open>
  C5. For a Teacher request, in \<^verbatim>\<open>getAllTeachers\<close> and \<^verbatim>\<open>getTeacherById\<close>: when the
  populate tokens have \<^verbatim>\<open>student\<close> or \<^verbatim>\<open>students\<close> and neither \<^verbatim>\<open>course\<close> nor
  \<^verbatim>\<open>courses\<close>, the include is empty.
\<close>

theorem teacher_student_token_without_course:
  assumes "q_populate q = Some p" and "toks = map trim (split CHR '','' (toLowerCase p))"
    and "''student'' \<in> set toks \<or> ''students'' \<in> set toks"
    and "''course'' \<notin> set toks" and "''courses'' \<notin> set toks"
  shows "fo_include (getAllTeachers_findAll q) = [] \<and> getTeacherById_include q = []"
  using assms(2-) unfolding findAll_include teacher_include_tokens [OF assms(1)] by auto

theorem teacher_student_token_without_course_witness:
  "fo_include (getAllTeachers_findAll
      \<lparr>q_limit = None, q_page = None, q_sortby = None, q_populate = Some ''student''\<rparr>) = [] \<and>
   getTeacherById_include
      \<lparr>q_limit = None, q_page = None, q_sortby = None, q_populate = Some ''student''\<rparr> = []"
  using teacher_student_token_without_course
    [of "\<lparr>q_limit = None, q_page = None, q_sortby = None, q_populate = Some ''student''\<rparr>"
      "''student''" "[''student'']"]
  by (simp add: token_samples)

text \<open>
  C10. For every query, populate absent or not, the include that \<^verbatim>\<open>getAllStudents\<close>
  hands to \<^verbatim>\<open>findAll\<close> is the include that \<^verbatim>\<open>getStudentById\<close> hands to \<^verbatim>\<open>findByPk\<close>,
  and the include of \<^verbatim>\<open>getAllTeachers\<close> is the include of \<^verbatim>\<open>getTeacherById\<close>: the same
  relations, nesting and \<^verbatim>\<open>through\<close> attributes.
\<close>

theorem list_and_by_id_include_agree:
  "fo_include (getAllStudents_findAll q) = getStudentById_include q \<and>
   fo_include (getAllTeachers_findAll q) = getTeacherById_include q"
  by (simp add: findAll_include getAllStudents_locals_def getStudentById_include_def
      getAllTeachers_locals_def getTeacherById_include_def Let_def)



section \<open>Listing an empty store\<close>

lemma limit_nonzero:
  "limit (getAllStudents_locals q) \<noteq> Num 0 \<and> limit (getAllStudents_locals q) \<noteq> NaN"
  "limit (getAllTeachers_locals q) \<noteq> Num 0 \<and> limit (getAllTeachers_locals q) \<noteq> NaN"
  by (simp_all add: limit_locals num_or_def)

lemma totalPages_zero: "l \<noteq> Num 0 \<and> l \<noteq> NaN \<Longrightarrow> totalPages_json 0 l = JNum 0"
  by (cases l) (simp_all add: totalPages_json_def)

lemma getAllStudents_empty_store:
  assumes "lst [] (getAllStudents_findAll (query req)) = []"
  shows "getAllStudents (store_api lst) [] req =
     Reply 200 (JObj
       [(''meta'', JObj [(''totalItems'', JNum 0),
                         (''page'', number_json (page (getAllStudents_locals (query req)))),
                         (''totalPages'', JNum 0)]),
        (''data'', JArr [])])"
  using assms
  by (simp add: getAllStudents_def store_api_def store_count_def store_findAll_def
      Let_def totalPages_zero limit_nonzero)

lemma getAllTeachers_empty_store:
  assumes "lst [] (getAllTeachers_findAll (query req)) = []"
  shows "getAllTeachers (store_api lst) [] req =
     Reply 200 (JObj
       [(''meta'', JObj [(''totalItem'', JNum 0),
                         (''page'', number_json (page (getAllTeachers_locals (query req)))),
                         (''totalPages'', JNum 0)]),
        (''data'', JArr [])])"
  using assms
  by (simp add: getAllTeachers_def store_api_def store_count_def store_findAll_def
      Let_def totalPages_zero limit_nonzero)

lemma stored_order_empty: "stored_order [] opts = []"
  by (simp add: stored_order_def split: number.splits)

text \<open>
  C7 says that a list request on a store with no records is answered with status 200,
  \<open>meta.totalItems = 0\<close>, \<open>meta.totalPages = 0\<close> and \<open>data = []\<close>, for Students and
  Teachers alike. \<^verbatim>\<open>GET /teachers\<close> with no query parameters on the empty store: the
  reply of \<^verbatim>\<open>getAllTeachers\<close> has status 200, no pages and no data, and its meta object
  holds the count under the key \<^verbatim>\<open>totalItem\<close>, so that \<open>meta.totalItems\<close> is undefined;
  \<^verbatim>\<open>getAllStudents\<close> at the same request names the key \<^verbatim>\<open>totalItems\<close>.
\<close>

theorem getAllTeachers_empty_store_totalItem:
  "getAllTeachers (store_api stored_order) ([] :: nat table)
     \<lparr>query = \<lparr>q_limit = None, q_page = None, q_sortby = None, q_populate = None\<rparr>,
      params_id = 0, body = JNull\<rparr> =
     Reply 200 (JObj
       [(''meta'', JObj [(''totalItem'', JNum 0), (''page'', JNum 1), (''totalPages'', JNum 0)]),
        (''data'', JArr [])]) \<and>
   member (JObj [(''totalItem'', JNum 0), (''page'', JNum 1), (''totalPages'', JNum 0)])
     ''totalItems'' = None \<and>
   getAllStudents (store_api stored_order) ([] :: nat table)
     \<lparr>query = \<lparr>q_limit = None, q_page = None, q_sortby = None, q_populate = None\<rparr>,
      params_id = 0, body = JNull\<rparr> =
     Reply 200 (JObj
       [(''meta'', JObj [(''totalItems'', JNum 0), (''page'', JNum 1), (''totalPages'', JNum 0)]),
        (''data'', JArr [])])"
  by (simp add: getAllTeachers_empty_store getAllStudents_empty_store stored_order_empty
      page_locals parseInt_param_absent num_or_def member_def number_json_def)


section \<open>Operations by id\<close>

lemma absent_lookup: "k \<notin> fst ` set t \<Longrightarrow> map_of t k = None"
  by (simp add: map_of_eq_None_iff)

text \<open>
  C8. On the store, for Students and Teachers: when the id of the request is not in the
  store, \<^verbatim>\<open>GET\<close>, \<^verbatim>\<open>PUT\<close> and \<^verbatim>\<open>DELETE\<close> by id reply 404 with the body
  \<^verbatim>\<open>{message: "Not found"}\<close> and leave the store as it is; when the id is in the store
  with the record \<open>row\<close>, \<^verbatim>\<open>GET\<close> replies 200 with the record, \<^verbatim>\<open>PUT\<close> replies 200 with
  the updated record and \<^verbatim>\<open>DELETE\<close> replies 200 with \<^verbatim>\<open>{message: "Deleted"}\<close>.
\<close>

theorem by_id_not_found_or_ok:
  "(params_id req \<notin> fst ` set t \<longrightarrow>
      getStudentById (store_api lst) t req = Reply 404 (JObj [(''message'', JStr ''Not found'')]) \<and>
      updateStudent (store_api lst) t req = (Reply 404 (JObj [(''message'', JStr ''Not found'')]), t) \<and>
      deleteStudent (store_api lst) t req = (Reply 404 (JObj [(''message'', JStr ''Not found'')]), t) \<and>
      getTeacherById (store_api lst) t req = Reply 404 (JObj [(''message'', JStr ''Not found'')]) \<and>
      updateTeacher (store_api lst) t req = (Reply 404 (JObj [(''message'', JStr ''Not found'')]), t) \<and>
      deleteTeacher (store_api lst) t req = (Reply 404 (JObj [(''message'', JStr ''Not found'')]), t)) \<and>
   (map_of t (params_id req) = Some row \<longrightarrow>
      getStudentById (store_api lst) t req = Reply 200 row \<and>
      fst (updateStudent (store_api lst) t req) = Reply 200 (assign_fields row (body req)) \<and>
      fst (deleteStudent (store_api lst) t req) = Reply 200 (JObj [(''message'', JStr ''Deleted'')]) \<and>
      getTeacherById (store_api lst) t req = Reply 200 row \<and>
      fst (updateTeacher (store_api lst) t req) = Reply 200 (assign_fields row (body req)) \<and>
      fst (deleteTeacher (store_api lst) t req) = Reply 200 (JObj [(''message'', JStr ''Deleted'')]))"
proof -
  have nf: "map_of t (params_id req) = None" if "params_id req \<notin> fst ` set t"
    using that by (rule absent_lookup)
  show ?thesis
    using nf
    by (auto simp: getStudentById_def updateStudent_def deleteStudent_def
        getTeacherById_def updateTeacher_def deleteTeacher_def
        store_api_def store_findByPk_def store_update_def store_destroy_def message_body_def)
qed

theorem by_id_not_found_or_ok_witness:
  "(2::nat) \<notin> fst ` set [(1, JObj [(''name'', JStr ''Ann'')])] \<and>
   getStudentById (store_api stored_order) [(1::nat, JObj [(''name'', JStr ''Ann'')])]
     \<lparr>query = \<lparr>q_limit = None, q_page = None, q_sortby = None, q_populate = None\<rparr>,
      params_id = 2, body = JObj [(''name'', JStr ''Bob'')]\<rparr>
     = Reply 404 (JObj [(''message'', JStr ''Not found'')]) \<and>
   status (fst (deleteTeacher (store_api stored_order) [(1::nat, JObj [(''name'', JStr ''Ann'')])]
     \<lparr>query = \<lparr>q_limit = None, q_page = None, q_sortby = None, q_populate = None\<rparr>,
      params_id = 2, body = JObj [(''name'', JStr ''Bob'')]\<rparr>)) = 404 \<and>
   map_of [(1::nat, JObj [(''name'', JStr ''Ann'')])] 1 = Some (JObj [(''name'', JStr ''Ann'')]) \<and>
   getTeacherById (store_api stored_order) [(1::nat, JObj [(''name'', JStr ''Ann'')])]
     \<lparr>query = \<lparr>q_limit = None, q_page = None, q_sortby = None, q_populate = None\<rparr>,
      params_id = 1, body = JObj [(''name'', JStr ''Bob'')]\<rparr>
     = Reply 200 (JObj [(''name'', JStr ''Ann'')]) \<and>
   fst (updateStudent (store_api stored_order) [(1::nat, JObj [(''name'', JStr ''Ann'')])]
     \<lparr>query = \<lparr>q_limit = None, q_page = None, q_sortby = None, q_populate = None\<rparr>,
      params_id = 1, body = JObj [(''name'', JStr ''Bob'')]\<rparr>)
     = Reply 200 (JObj [(''name'', JStr ''Bob'')])"
  using
    by_id_not_found_or_ok [of
      "\<lparr>query = \<lparr>q_limit = None, q_page = None, q_sortby = None, q_populate = None\<rparr>,
        params_id = 2::nat, body = JObj [(''name'', JStr ''Bob'')]\<rparr>"
      "[(1::nat, JObj [(''name'', JStr ''Ann'')])]" stored_order "JNull"]
    by_id_not_found_or_ok [of
      "\<lparr>query = \<lparr>q_limit = None, q_page = None, q_sortby = None, q_populate = None\<rparr>,
        params_id = 1::nat, body = JObj [(''name'', JStr ''Bob'')]\<rparr>"
      "[(1::nat, JObj [(''name'', JStr ''Ann'')])]" stored_order "JObj [(''name'', JStr ''Ann'')]"]
  by (simp add: assign_fields_def)

text \<open>
  C9. On the store, for Students and Teachers, for an id that is in the store: the first
  \<^verbatim>\<open>DELETE\<close> replies 200 with \<^verbatim>\<open>{message: "Deleted"}\<close> and the store afterwards has lost
  that id and nothing else; the second \<^verbatim>\<open>DELETE\<close>, on the store the first one left,
  replies 404 with \<^verbatim>\<open>{message: "Not found"}\<close> and leaves that store as it is.
\<close>

theorem delete_twice:
  assumes "map_of t (params_id req) = Some row"
  shows
   "fst (deleteStudent (store_api lst) t req) = Reply 200 (JObj [(''message'', JStr ''Deleted'')]) \<and>
    map_of (snd (deleteStudent (store_api lst) t req)) = (map_of t)(params_id req := None) \<and>
    deleteStudent (store_api lst) (snd (deleteStudent (store_api lst) t req)) req =
      (Reply 404 (JObj [(''message'', JStr ''Not found'')]),
       snd (deleteStudent (store_api lst) t req)) \<and>
    fst (deleteTeacher (store_api lst) t req) = Reply 200 (JObj [(''message'', JStr ''Deleted'')]) \<and>
    map_of (snd (deleteTeacher (store_api lst) t req)) = (map_of t)(params_id req := None) \<and>
    deleteTeacher (store_api lst) (snd (deleteTeacher (store_api lst) t req)) req =
      (Reply 404 (JObj [(''message'', JStr ''Not found'')]),
       snd (deleteTeacher (store_api lst) t req))"
proof -
  have s1: "deleteStudent (store_api lst) t req =
      (Reply 200 (JObj [(''message'', JStr ''Deleted'')]), AList.delete (params_id req) t)"
    using assms
    by (simp add: deleteStudent_def store_api_def store_findByPk_def store_destroy_def
        message_body_def)
  have t1: "deleteTeacher (store_api lst) t req =
      (Reply 200 (JObj [(''message'', JStr ''Deleted'')]), AList.delete (params_id req) t)"
    using assms
    by (simp add: deleteTeacher_def store_api_def store_findByPk_def store_destroy_def
        message_body_def)
  have gone: "map_of (AList.delete (params_id req) t) (params_id req) = None"
    by (simp add: delete_conv')
  have s2: "deleteStudent (store_api lst) (AList.delete (params_id req) t) req =
      (Reply 404 (JObj [(''message'', JStr ''Not found'')]), AList.delete (params_id req) t)"
    using gone
    by (simp add: deleteStudent_def store_api_def store_findByPk_def message_body_def)
  have t2: "deleteTeacher (store_api lst) (AList.delete (params_id req) t) req =
      (Reply 404 (JObj [(''message'', JStr ''Not found'')]), AList.delete (params_id req) t)"
    using gone
    by (simp add: deleteTeacher_def store_api_def store_findByPk_def message_body_def)
  show ?thesis
    by (simp add: s1 s2 t1 t2 delete_conv')
qed

theorem delete_twice_witness:
  "map_of [(7::nat, JObj [(''name'', JStr ''Ann'')]), (8, JObj [(''name'', JStr ''Bob'')])] 7
     = Some (JObj [(''name'', JStr ''Ann'')]) \<and>
   deleteStudent (store_api stored_order)
     [(7::nat, JObj [(''name'', JStr ''Ann'')]), (8, JObj [(''name'', JStr ''Bob'')])]
     \<lparr>query = \<lparr>q_limit = None, q_page = None, q_sortby = None, q_populate = None\<rparr>,
      params_id = 7, body = JNull\<rparr>
     = (Reply 200 (JObj [(''message'', JStr ''Deleted'')]), [(8, JObj [(''name'', JStr ''Bob'')])]) \<and>
   deleteStudent (store_api stored_order) [(8::nat, JObj [(''name'', JStr ''Bob'')])]
     \<lparr>query = \<lparr>q_limit = None, q_page = None, q_sortby = None, q_populate = None\<rparr>,
      params_id = 7, body = JNull\<rparr>
     = (Reply 404 (JObj [(''message'', JStr ''Not found'')]), [(8, JObj [(''name'', JStr ''Bob'')])])"
proof -
  have d: "deleteStudent (store_api stored_order)
     [(7::nat, JObj [(''name'', JStr ''Ann'')]), (8, JObj [(''name'', JStr ''Bob'')])]
     \<lparr>query = \<lparr>q_limit = None, q_page = None, q_sortby = None, q_populate = None\<rparr>,
      params_id = 7, body = JNull\<rparr>
     = (Reply 200 (JObj [(''message'', JStr ''Deleted'')]), [(8, JObj [(''name'', JStr ''Bob'')])])"
    by (simp add: deleteStudent_def store_api_def store_findByPk_def store_destroy_def
        message_body_def)
  show ?thesis
    using delete_twice [of
      "[(7::nat, JObj [(''name'', JStr ''Ann'')]), (8, JObj [(''name'', JStr ''Bob'')])]"
      "\<lparr>query = \<lparr>q_limit = None, q_page = None, q_sortby = None, q_populate = None\<rparr>,
        params_id = 7::nat, body = JNull\<rparr>"
      "JObj [(''name'', JStr ''Ann'')]" stored_order]
    by (simp add: d)
qed

end
